theory Spec2Isabelle
  imports Complex_Main
begin

section \<open>Numeric values and Python primitives\<close>

text \<open>
  The program (\<^verbatim>\<open>repose.py\<close>) computes on NumPy double-precision values. The
  embedding keeps the arithmetic of the finite values exact (type \<^typ>\<open>real\<close>) and
  makes the special values that the code produces or tests explicit: the not-a-number
  value written \<^verbatim>\<open>float('nan')\<close> in the source and returned by
  \<^verbatim>\<open>np.mean\<close> of an empty array, and the infinities of a division by zero.
  Rounding and the sign of zero are not represented.
\<close>

datatype npfloat = Finite real | PosInf | NegInf | NaN

datatype py_error = KeyError | IndexError | ValueError | ZeroDivisionError | ConfigurationError

text \<open>IEEE multiplication and division on the special values, exact on the finite ones.\<close>

fun np_times :: "npfloat \<Rightarrow> npfloat \<Rightarrow> npfloat" where
  "np_times (Finite a) (Finite b) = Finite (a * b)"
| "np_times NaN _ = NaN"
| "np_times _ NaN = NaN"
| "np_times (Finite a) PosInf = (if a = 0 then NaN else if 0 < a then PosInf else NegInf)"
| "np_times (Finite a) NegInf = (if a = 0 then NaN else if 0 < a then NegInf else PosInf)"
| "np_times PosInf (Finite b) = (if b = 0 then NaN else if 0 < b then PosInf else NegInf)"
| "np_times NegInf (Finite b) = (if b = 0 then NaN else if 0 < b then NegInf else PosInf)"
| "np_times PosInf PosInf = PosInf"
| "np_times PosInf NegInf = NegInf"
| "np_times NegInf PosInf = NegInf"
| "np_times NegInf NegInf = PosInf"

fun np_divide :: "npfloat \<Rightarrow> npfloat \<Rightarrow> npfloat" where
  "np_divide (Finite a) (Finite b) =
     (if b = 0 then (if a = 0 then NaN else if 0 < a then PosInf else NegInf)
      else Finite (a / b))"
| "np_divide NaN _ = NaN"
| "np_divide _ NaN = NaN"
| "np_divide (Finite a) PosInf = Finite 0"
| "np_divide (Finite a) NegInf = Finite 0"
| "np_divide PosInf (Finite b) = (if 0 \<le> b then PosInf else NegInf)"
| "np_divide NegInf (Finite b) = (if 0 \<le> b then NegInf else PosInf)"
| "np_divide PosInf PosInf = NaN"
| "np_divide PosInf NegInf = NaN"
| "np_divide NegInf PosInf = NaN"
| "np_divide NegInf NegInf = NaN"

text \<open>The comparison \<^verbatim>\<open><\<close>: false as soon as one side is not a number.\<close>

fun np_less :: "npfloat \<Rightarrow> npfloat \<Rightarrow> bool" where
  "np_less (Finite a) (Finite b) = (a < b)"
| "np_less NaN _ = False"
| "np_less _ NaN = False"
| "np_less NegInf PosInf = True"
| "np_less NegInf (Finite b) = True"
| "np_less (Finite a) PosInf = True"
| "np_less _ _ = False"

fun np_sign :: "npfloat \<Rightarrow> npfloat" where
  "np_sign (Finite a) = Finite (sgn a)"
| "np_sign PosInf = Finite 1"
| "np_sign NegInf = Finite (- 1)"
| "np_sign NaN = NaN"

text \<open>
  \<^verbatim>\<open>np.arcsin\<close> and \<^verbatim>\<open>np.arccos\<close> return not-a-number (with a warning, no
  exception) outside \<open>[-1, 1]\<close>.
\<close>

definition np_arcsin :: "real \<Rightarrow> npfloat" where
  "np_arcsin v = (if - 1 \<le> v \<and> v \<le> 1 then Finite (arcsin v) else NaN)"

definition np_arccos :: "real \<Rightarrow> npfloat" where
  "np_arccos v = (if - 1 \<le> v \<and> v \<le> 1 then Finite (arccos v) else NaN)"

text \<open>\<^verbatim>\<open>np.clip(a, lo, hi)\<close> is \<^verbatim>\<open>minimum(maximum(a, lo), hi)\<close>.\<close>

definition np_clip :: "real \<Rightarrow> real \<Rightarrow> real \<Rightarrow> real" where
  "np_clip v lo hi = min (max v lo) hi"

text \<open>\<^verbatim>\<open>np.diff\<close> of a one-dimensional array: \<^verbatim>\<open>a[1:] - a[:-1]\<close>.\<close>

fun np_diff :: "'a::minus list \<Rightarrow> 'a list" where
  "np_diff (a # b # xs) = (b - a) # np_diff (b # xs)"
| "np_diff [a] = []"
| "np_diff [] = []"

text \<open>\<^verbatim>\<open>np.append\<close> returns a new array and leaves its argument as it is.\<close>

definition np_append :: "'a list \<Rightarrow> 'a \<Rightarrow> 'a list" where
  "np_append arr v = arr @ [v]"

text \<open>\<^verbatim>\<open>np.mean\<close>: not-a-number on an empty array (a warning, no exception).\<close>

definition np_mean :: "real list \<Rightarrow> npfloat" where
  "np_mean xs = (if xs = [] then NaN else Finite (sum_list xs / real (length xs)))"

text \<open>
  \<^verbatim>\<open>np.median\<close>: the middle element of the sorted array, or the mean of the two
  middle elements; not-a-number on an empty array.
\<close>

definition np_median :: "real list \<Rightarrow> npfloat" where
  "np_median xs =
     (if xs = [] then NaN
      else let s = sort xs; n = length xs in
        if odd n then Finite (s ! (n div 2))
        else Finite ((s ! (n div 2 - 1) + s ! (n div 2)) / 2))"

text \<open>
  \<^verbatim>\<open>np.percentile(a, q)\<close> with the default linear interpolation: the virtual index
  \<open>q / 100 * (n - 1)\<close> in the sorted array, interpolated between its two neighbours.
\<close>

definition np_percentile :: "real list \<Rightarrow> real \<Rightarrow> npfloat" where
  "np_percentile a q =
     (if a = [] then NaN
      else let s = sort a; n = length a;
               v = q / 100 * real (n - 1);
               lo = nat \<lfloor>v\<rfloor>;
               hi = min (lo + 1) (n - 1);
               g = v - real lo
           in Finite (s ! lo + g * (s ! hi - s ! lo)))"

text \<open>
  \<^verbatim>\<open>range(start, stop, step)\<close> on Python integers: a zero step raises
  \<^verbatim>\<open>ValueError\<close>; the number of elements is computed as CPython does.
\<close>

definition range_len :: "int \<Rightarrow> int \<Rightarrow> int \<Rightarrow> nat" where
  "range_len start stop step =
     (if 0 < step \<and> start < stop then nat ((stop - start - 1) div step + 1)
      else if step < 0 \<and> stop < start then nat ((start - stop - 1) div (- step) + 1)
      else 0)"

definition py_range :: "int \<Rightarrow> int \<Rightarrow> int \<Rightarrow> py_error + int list" where
  "py_range start stop step =
     (if step = 0 then Inl ValueError
      else Inr (map (\<lambda>k. start + int k * step) [0..<range_len start stop step]))"

text \<open>
  Indexing \<^verbatim>\<open>xs[i]\<close> (a negative index counts from the end, out of range raises
  \<^verbatim>\<open>IndexError\<close>) and slicing \<^verbatim>\<open>xs[i:j]\<close> (bounds are clamped, never raises).
\<close>

definition py_index :: "'a list \<Rightarrow> int \<Rightarrow> py_error + 'a" where
  "py_index xs i =
     (if 0 \<le> i \<and> i < int (length xs) then Inr (xs ! nat i)
      else if i < 0 \<and> - int (length xs) \<le> i then Inr (xs ! nat (int (length xs) + i))
      else Inl IndexError)"

definition slice_bound :: "nat \<Rightarrow> int \<Rightarrow> nat" where
  "slice_bound n i = (if i < 0 then nat (max 0 (int n + i)) else min n (nat i))"

definition py_slice :: "'a list \<Rightarrow> int \<Rightarrow> int \<Rightarrow> 'a list" where
  "py_slice xs i j =
     (let lo = slice_bound (length xs) i; hi = slice_bound (length xs) j
      in take (hi - lo) (drop lo xs))"

section \<open>Band-pass filter\<close>

text \<open>
  \<^verbatim>\<open>butter_bandpass\<close> (lines 77 to 83) normalises the two cutoffs by the Nyquist
  frequency and hands them to \<^verbatim>\<open>scipy.signal.butter\<close>. The design routine belongs to
  the library, not to this program: it is the parameter \<open>butter\<close>, which returns the
  coefficient arrays \<open>(b, a)\<close> or raises. The division is Python's: a zero divisor raises
  \<^verbatim>\<open>ZeroDivisionError\<close>.
\<close>

type_synonym coeffs = "real list \<times> real list"

type_synonym design = "nat \<Rightarrow> real \<times> real \<Rightarrow> py_error + coeffs"

definition butter_bandpass :: "design \<Rightarrow> real \<Rightarrow> real \<Rightarrow> real \<Rightarrow> nat \<Rightarrow> py_error + coeffs" where
  "butter_bandpass butter lowcut highcut fs order =
     (let nyq = 0.5 * fs in
      if nyq = 0 then Inl ZeroDivisionError
      else let low = lowcut / nyq; high = highcut / nyq
           in butter order (low, high))"

text \<open>
  \<^verbatim>\<open>scipy.signal.lfilter(b, a, x)\<close> is the direct-form recursion
  \<open>a[0]*y[n] = b[0]*x[n] + ... + b[M]*x[n-M] - a[1]*y[n-1] - ... - a[N]*y[n-N]\<close>
  started at rest; it raises when \<open>a[0]\<close> is missing or zero. \<open>xp\<close> and \<open>yp\<close> are the
  past inputs and outputs, the latest first.
\<close>

definition dot :: "real list \<Rightarrow> real list \<Rightarrow> real" where
  "dot c h = sum_list (map2 (*) c h)"

fun lfilter_run :: "real list \<Rightarrow> real list \<Rightarrow> real list \<Rightarrow> real list \<Rightarrow> real list \<Rightarrow> real list" where
  "lfilter_run b a xp yp [] = []"
| "lfilter_run b a xp yp (x # xs) =
     (let y = (dot b (x # xp) - dot (tl a) yp) / hd a
      in y # lfilter_run b a (x # xp) (y # yp) xs)"

definition lfilter :: "real list \<Rightarrow> real list \<Rightarrow> real list \<Rightarrow> py_error + real list" where
  "lfilter b a x = (if a = [] \<or> hd a = 0 then Inl ValueError else Inr (lfilter_run b a [] [] x))"

definition butter_bandpass_filter ::
  "design \<Rightarrow> real list \<Rightarrow> real \<Rightarrow> real \<Rightarrow> real \<Rightarrow> nat \<Rightarrow> py_error + real list" where
  "butter_bandpass_filter butter data lowcut highcut fs order =
     (case butter_bandpass butter lowcut highcut fs order of
        Inl e \<Rightarrow> Inl e
      | Inr (b, a) \<Rightarrow> lfilter b a data)"


section \<open>Spectrum\<close>

text \<open>
  \<^verbatim>\<open>np.fft.rfft\<close>: the bins \<open>0 .. n div 2\<close> of the discrete Fourier transform; it raises
  \<^verbatim>\<open>ValueError\<close> on an empty array. \<^verbatim>\<open>np.fft.rfftfreq(n, d)\<close> is
  \<open>[0, 1, ..., n div 2] / (n * d)\<close>.
\<close>

definition dft_bin :: "real list \<Rightarrow> nat \<Rightarrow> complex" where
  "dft_bin sig k =
     (\<Sum>j<length sig. of_real (sig ! j) * cis (- (2 * pi * real k * real j / real (length sig))))"

definition rfft :: "real list \<Rightarrow> py_error + complex list" where
  "rfft sig = (if sig = [] then Inl ValueError
               else Inr (map (dft_bin sig) [0..<length sig div 2 + 1]))"

definition rfftfreq :: "nat \<Rightarrow> real \<Rightarrow> real list" where
  "rfftfreq n d = map (\<lambda>k. real k * (1 / (real n * d))) [0..<n div 2 + 1]"

text \<open>
  \<^verbatim>\<open>np.argmax\<close>: the first index of the largest element. \<open>argmax_loop xs i k m\<close>
  scans \<open>xs\<close>, whose first element has index \<open>i\<close>, with the best index \<open>k\<close> and value
  \<open>m\<close> so far.
\<close>

fun argmax_loop :: "real list \<Rightarrow> nat \<Rightarrow> nat \<Rightarrow> real \<Rightarrow> nat" where
  "argmax_loop [] i k m = k"
| "argmax_loop (x # xs) i k m =
     (if m < x then argmax_loop xs (i + 1) i x else argmax_loop xs (i + 1) k m)"

definition np_argmax :: "real list \<Rightarrow> py_error + nat" where
  "np_argmax xs = (case xs of [] \<Rightarrow> Inl ValueError | x # r \<Rightarrow> Inr (argmax_loop r 1 0 x))"

definition np_max :: "real list \<Rightarrow> py_error + real" where
  "np_max xs = (case xs of [] \<Rightarrow> Inl ValueError | x # r \<Rightarrow> Inr (fold max r x))"

text \<open>
  \<^verbatim>\<open>spectrum\<close> (lines 93 to 99):
  \<^verbatim>\<open>
    mag = np.fft.rfft(sig)
    freq = np.fft.rfftfreq(len(sig), 1.0 / sample_rate)
    peakf = np.argmax(np.absolute(mag)) * freq[1]
    peakv = np.max(np.absolute(mag))
    return np.absolute(mag) / 1000., freq, peakf, peakv / 1000.
  \<close>
\<close>

definition spectrum :: "real list \<Rightarrow> real \<Rightarrow> py_error + (real list \<times> real list \<times> real \<times> real)" where
  "spectrum sig sample_rate =
     (case rfft sig of
        Inl e \<Rightarrow> Inl e
      | Inr mag \<Rightarrow>
          if sample_rate = 0 then Inl ZeroDivisionError
          else let freq = rfftfreq (length sig) (1.0 / sample_rate) in
            (case np_argmax (map cmod mag) of
               Inl e \<Rightarrow> Inl e
             | Inr k \<Rightarrow>
                 (case py_index freq 1 of
                    Inl e \<Rightarrow> Inl e
                  | Inr f1 \<Rightarrow>
                      let peakf = real k * f1 in
                      (case np_max (map cmod mag) of
                         Inl e \<Rightarrow> Inl e
                       | Inr peakv \<Rightarrow>
                           Inr (map (\<lambda>m. m / 1000) (map cmod mag), freq, peakf,
                                peakv / 1000)))))"

section \<open>Heart rate\<close>

text \<open>
  Lines 111 and 112 of \<^verbatim>\<open>calculate_hr\<close>:
  \<^verbatim>\<open>
    ecg_processed = -np.diff(ecg_filt)
    np.append(ecg_processed, 0)
  \<close>
  The value of \<^verbatim>\<open>np.append\<close> is not bound to a name.
\<close>

definition differentiate :: "real list \<Rightarrow> real list" where
  "differentiate ecg_filt =
     (let ecg_processed = map uminus (np_diff ecg_filt);
          _ = np_append ecg_processed 0
      in ecg_processed)"

text \<open>
  The body of the window loop (lines 116 to 124). \<open>ecg_sample\<close> is the window,
  \<open>thresh\<close> its detection threshold, \<open>beats\<close> the indices appended by the inner loop.
  \<^verbatim>\<open>
    thresh = np.percentile(ecg_sample, 99)*0.75
    beats = []
    for j in range(len(ecg_sample)-1):
      if ecg_sample[j] < thresh < ecg_sample[j+1]:
        beats.append(j)
    hr_mean = 60*1/(np.mean(np.diff(beats)/sample_rate['ECG']))
  \<close>
\<close>

definition beat_threshold :: "real list \<Rightarrow> npfloat" where
  "beat_threshold ecg_sample = np_times (np_percentile ecg_sample 99) (Finite 0.75)"

definition detect_beats :: "real list \<Rightarrow> nat list" where
  "detect_beats ecg_sample =
     (let thresh = beat_threshold ecg_sample
      in filter (\<lambda>j. np_less (Finite (ecg_sample ! j)) thresh \<and>
                      np_less thresh (Finite (ecg_sample ! (j + 1))))
           [0..<length ecg_sample - 1])"

definition hr_mean :: "nat list \<Rightarrow> int \<Rightarrow> npfloat" where
  "hr_mean beats fs =
     np_divide (Finite (60 * 1))
       (np_mean (map (\<lambda>d. real_of_int d / real_of_int fs) (np_diff (map int beats))))"

text \<open>
  The row of one window: the value \<open>hr_mean\<close> at the index entry
  \<^verbatim>\<open>ecg.index[i+hr_win]\<close>. \<open>ecg_index\<close> is the index of the resampled ECG frame.
\<close>

definition hr_new_row :: "'t list \<Rightarrow> real list \<Rightarrow> int \<Rightarrow> int \<Rightarrow> int \<Rightarrow> py_error + ('t \<times> npfloat)" where
  "hr_new_row ecg_index ecg_processed fs hr_win i =
     (let ecg_sample = py_slice ecg_processed i (i + hr_win);
          beats = detect_beats ecg_sample;
          m = hr_mean beats fs
      in case py_index ecg_index (i + hr_win) of
           Inl e \<Rightarrow> Inl e
         | Inr t \<Rightarrow> Inr (t, m))"

definition hr_window_starts :: "real list \<Rightarrow> int \<Rightarrow> int \<Rightarrow> int \<Rightarrow> py_error + int list" where
  "hr_window_starts ecg_processed fs hr_win calc_every =
     py_range 0 (int (length ecg_processed) - hr_win) (fs * calc_every)"

text \<open>
  The loop of lines 115 to 126. Each turn appends the new row and then refills the frame
  to one row per second (\<^verbatim>\<open>hr.resample('S').pad()\<close>); that pandas operation is the
  parameter \<open>pad\<close>.
\<close>

fun hr_loop ::
  "(('t \<times> npfloat) list \<Rightarrow> ('t \<times> npfloat) list) \<Rightarrow> 't list \<Rightarrow> real list \<Rightarrow> int \<Rightarrow> int \<Rightarrow>
     int list \<Rightarrow> ('t \<times> npfloat) list \<Rightarrow> py_error + ('t \<times> npfloat) list" where
  "hr_loop pad ecg_index ecg_processed fs hr_win [] hr = Inr hr"
| "hr_loop pad ecg_index ecg_processed fs hr_win (i # rest) hr =
     (case hr_new_row ecg_index ecg_processed fs hr_win i of
        Inl e \<Rightarrow> Inl e
      | Inr new_row \<Rightarrow>
          hr_loop pad ecg_index ecg_processed fs hr_win rest (pad (hr @ [new_row])))"

text \<open>
  \<^verbatim>\<open>calculate_hr\<close> (lines 102 to 127) from the resampled frame on: \<open>ecg_index\<close> and
  \<open>ecg_array\<close> are the index and the column of \<^verbatim>\<open>ecg.resample('0.01S').mean()\<close>.
  The sample-rate dictionary is updated in place in the source; here the new dictionary
  is returned with the result.
\<close>

definition calculate_hr ::
  "design \<Rightarrow> (('t \<times> npfloat) list \<Rightarrow> ('t \<times> npfloat) list) \<Rightarrow> 't list \<Rightarrow> real list \<Rightarrow>
     (string \<rightharpoonup> int) \<Rightarrow> int \<Rightarrow> int \<Rightarrow> py_error + (('t \<times> npfloat) list \<times> (string \<rightharpoonup> int))" where
  "calculate_hr butter pad ecg_index ecg_array sample_rate window_length calc_every =
     (let sample_rate = sample_rate(''ECG'' \<mapsto> 100);
          fs = 100;
          low = 3.0; high = 33.3
      in case butter_bandpass butter low high (real_of_int fs) 2 of
           Inl e \<Rightarrow> Inl e
         | Inr _ \<Rightarrow>
             (case butter_bandpass_filter butter ecg_array low high (real_of_int fs) 2 of
                Inl e \<Rightarrow> Inl e
              | Inr ecg_filt \<Rightarrow>
                  let ecg_processed = differentiate ecg_filt;
                      hr_win = window_length * fs
                  in (case hr_window_starts ecg_processed fs hr_win calc_every of
                        Inl e \<Rightarrow> Inl e
                      | Inr starts \<Rightarrow>
                          (case hr_loop pad ecg_index ecg_processed fs hr_win starts [] of
                             Inl e \<Rightarrow> Inl e
                           | Inr hr \<Rightarrow> Inr (hr, sample_rate)))))"

section \<open>Respiratory rate\<close>

text \<open>
  \<^verbatim>\<open>calculate_rr\<close> (lines 130 to 143). The window is centred on its median; an
  empty window stays empty whatever the median is.
\<close>

definition np_subtract :: "real list \<Rightarrow> npfloat \<Rightarrow> real list" where
  "np_subtract arr m = (case m of Finite c \<Rightarrow> map (\<lambda>v. v - c) arr | _ \<Rightarrow> [])"

definition rr_window :: "real list \<Rightarrow> int \<Rightarrow> int \<Rightarrow> real list" where
  "rr_window acc_tot rr_win i = py_slice acc_tot i (i + rr_win)"

definition rr_new_row :: "'t list \<Rightarrow> real list \<Rightarrow> int \<Rightarrow> int \<Rightarrow> int \<Rightarrow> py_error + ('t \<times> real)" where
  "rr_new_row acc_index acc_tot fs_acc rr_win i =
     (let windowed_acc = np_subtract (rr_window acc_tot rr_win i)
                           (np_median (rr_window acc_tot rr_win i))
      in case spectrum windowed_acc (real_of_int fs_acc) of
           Inl e \<Rightarrow> Inl e
         | Inr (_, _, rf, _) \<Rightarrow>
             (case py_index acc_index (i + rr_win) of
                Inl e \<Rightarrow> Inl e
              | Inr t \<Rightarrow> Inr (t, rf * 60)))"

definition rr_window_starts ::
  "real list \<Rightarrow> (string \<rightharpoonup> int) \<Rightarrow> int \<Rightarrow> int \<Rightarrow> py_error + int list" where
  "rr_window_starts acc_tot sample_rate window_length calc_every =
     (case sample_rate ''Accelerometer_X'' of
        None \<Rightarrow> Inl KeyError
      | Some fs_acc \<Rightarrow>
          let rr_win = window_length * fs_acc
          in (case sample_rate ''ECG'' of
                None \<Rightarrow> Inl KeyError
              | Some fs_ecg \<Rightarrow> py_range 0 (int (length acc_tot) - rr_win) (fs_ecg * calc_every)))"

fun rr_loop ::
  "(('t \<times> real) list \<Rightarrow> ('t \<times> real) list) \<Rightarrow> 't list \<Rightarrow> real list \<Rightarrow> int \<Rightarrow> int \<Rightarrow>
     int list \<Rightarrow> ('t \<times> real) list \<Rightarrow> py_error + ('t \<times> real) list" where
  "rr_loop pad acc_index acc_tot fs_acc rr_win [] rr = Inr rr"
| "rr_loop pad acc_index acc_tot fs_acc rr_win (i # rest) rr =
     (case rr_new_row acc_index acc_tot fs_acc rr_win i of
        Inl e \<Rightarrow> Inl e
      | Inr new_row \<Rightarrow>
          rr_loop pad acc_index acc_tot fs_acc rr_win rest (pad (rr @ [new_row])))"

definition calculate_rr ::
  "(('t \<times> real) list \<Rightarrow> ('t \<times> real) list) \<Rightarrow> 't list \<Rightarrow> real list \<Rightarrow> (string \<rightharpoonup> int) \<Rightarrow>
     int \<Rightarrow> int \<Rightarrow> py_error + ('t \<times> real) list" where
  "calculate_rr pad acc_index acc_tot sample_rate window_length calc_every =
     (case rr_window_starts acc_tot sample_rate window_length calc_every of
        Inl e \<Rightarrow> Inl e
      | Inr starts \<Rightarrow>
          (case sample_rate ''Accelerometer_X'' of
             None \<Rightarrow> Inl KeyError
           | Some fs_acc \<Rightarrow>
               rr_loop pad acc_index acc_tot fs_acc (window_length * fs_acc) starts []))"

section \<open>Body position\<close>

datatype Pos = SUPINE | PRONE | TILT | UPRIGHT | LEFT_SIDE | RIGHT_SIDE

fun Pos_value :: "Pos \<Rightarrow> nat" where
  "Pos_value SUPINE = 0"
| "Pos_value PRONE = 1"
| "Pos_value TILT = 2"
| "Pos_value UPRIGHT = 3"
| "Pos_value LEFT_SIDE = 4"
| "Pos_value RIGHT_SIDE = 5"

fun Pos_name :: "Pos \<Rightarrow> string" where
  "Pos_name SUPINE = ''SUPINE''"
| "Pos_name PRONE = ''PRONE''"
| "Pos_name TILT = ''TILT''"
| "Pos_name UPRIGHT = ''UPRIGHT''"
| "Pos_name LEFT_SIDE = ''LEFT_SIDE''"
| "Pos_name RIGHT_SIDE = ''RIGHT_SIDE''"

text \<open>
  One turn of the loop of \<^verbatim>\<open>body_pos_and_angles\<close> (lines 151 to 181) on the row
  \<open>(ax, ay, az)\<close>: the position and the entries appended to \<open>thetas\<close> and \<open>phis\<close>.
\<close>

definition body_pos_sample :: "real \<Rightarrow> real \<Rightarrow> real \<Rightarrow> Pos \<times> npfloat \<times> npfloat" where
  "body_pos_sample ax ay az =
     (let acc_x = np_clip ax (- 1) 1;
          acc_y = np_clip ay (- 1) 1;
          acc_z = np_clip az (- 1) 1;
          theta = np_divide (np_times (np_arcsin acc_x) (Finite 180)) (Finite pi);
          phi = np_divide
                  (np_times (np_times (np_sign (np_arcsin (- acc_y))) (np_arccos (- acc_z)))
                     (Finite 180))
                  (Finite pi);
          (position, tilt) =
            (if \<bar>acc_y\<bar> > 0.5
             then ((if acc_y < 0 then LEFT_SIDE else RIGHT_SIDE), NaN)
             else ((if acc_z > acc_x \<and> acc_z > acc_y then PRONE
                    else if acc_z < - 0.966 then SUPINE
                    else if acc_x > 0.966 then UPRIGHT
                    else TILT), theta));
          rotation = (if acc_x > 0.71 then NaN else phi)
      in (position, tilt, rotation))"

definition body_pos_and_angles ::
  "(real \<times> real \<times> real) list \<Rightarrow> nat list \<times> string list \<times> npfloat list \<times> npfloat list" where
  "body_pos_and_angles acc =
     (let rows = map (\<lambda>(ax, ay, az). body_pos_sample ax ay az) acc
      in (map (\<lambda>(p, t, r). Pos_value p) rows,
          map (\<lambda>(p, t, r). Pos_name p) rows,
          map (\<lambda>(p, t, r). t) rows,
          map (\<lambda>(p, t, r). r) rows))"

section \<open>Properties of the primitives\<close>

lemma length_np_diff: "length (np_diff xs) = length xs - 1"
  by (induction xs rule: np_diff.induct) simp_all

lemma nth_np_diff: "i + 1 < length xs \<Longrightarrow> np_diff xs ! i = xs ! (i + 1) - xs ! i"
proof (induction xs arbitrary: i rule: np_diff.induct)
  case (1 a b xs)
  then show ?case by (cases i) simp_all
qed simp_all

text \<open>
  Claim C6. The differentiation step produces
  \<open>processed[i] = -(filtered[i+1] - filtered[i])\<close> for every index \<open>i\<close> of the filtered
  array except the last, and the processed array is exactly one element shorter than
  the (non-empty) filtered array: the appended zero never reaches the array used
  downstream.
\<close>

theorem differentiate_negated_difference:
  "ecg_filt \<noteq> [] \<Longrightarrow>
     length (differentiate ecg_filt) + 1 = length ecg_filt \<and>
     (\<forall>i. i + 1 < length ecg_filt \<longrightarrow>
        differentiate ecg_filt ! i = - (ecg_filt ! (i + 1) - ecg_filt ! i)) \<and>
     differentiate ecg_filt \<noteq> np_append (map uminus (np_diff ecg_filt)) 0"
proof -
  assume ne: "ecg_filt \<noteq> []"
  have d: "differentiate ecg_filt = map uminus (np_diff ecg_filt)"
    by (simp add: differentiate_def)
  have len: "length (differentiate ecg_filt) + 1 = length ecg_filt"
    using ne by (cases ecg_filt) (simp_all add: differentiate_def length_np_diff)
  have nth: "\<forall>i. i + 1 < length ecg_filt \<longrightarrow>
      differentiate ecg_filt ! i = - (ecg_filt ! (i + 1) - ecg_filt ! i)"
    by (simp add: d length_np_diff nth_np_diff)
  have "length (differentiate ecg_filt) \<noteq> length (np_append (map uminus (np_diff ecg_filt)) 0)"
    by (simp add: d np_append_def)
  then have "differentiate ecg_filt \<noteq> np_append (map uminus (np_diff ecg_filt)) 0"
    by metis
  with len nth show ?thesis by blast
qed

theorem differentiate_negated_difference_witness:
  "[1, 4, 2 :: real] \<noteq> [] \<and> differentiate [1, 4, 2] = [- 3, 2] \<and>
   length (differentiate [1, 4, 2]) + 1 = length [1, 4, 2 :: real]"
  using differentiate_negated_difference [of "[1, 4, 2]"]
  by (simp add: differentiate_def)

section \<open>Body position: the decision procedure\<close>

lemma np_clip_range: "- 1 \<le> np_clip v (- 1) 1 \<and> np_clip v (- 1) 1 \<le> 1"
  by (simp add: np_clip_def)

lemma np_clip_id: "- 1 \<le> v \<Longrightarrow> v \<le> 1 \<Longrightarrow> np_clip v (- 1) 1 = v"
  by (simp add: np_clip_def)

lemma np_arcsin_clip: "np_arcsin (np_clip v (- 1) 1) = Finite (arcsin (np_clip v (- 1) 1))"
  by (simp add: np_arcsin_def np_clip_def)

lemma np_arcsin_neg_clip:
  "np_arcsin (- np_clip v (- 1) 1) = Finite (arcsin (- np_clip v (- 1) 1))"
  by (simp add: np_arcsin_def np_clip_def)

lemma np_arccos_neg_clip:
  "np_arccos (- np_clip v (- 1) 1) = Finite (arccos (- np_clip v (- 1) 1))"
  by (simp add: np_arccos_def np_clip_def)

text \<open>
  After clipping, every call of \<^verbatim>\<open>np.arcsin\<close> and \<^verbatim>\<open>np.arccos\<close> is in its
  domain, so the angles are finite wherever the code does not write not-a-number itself.
\<close>

lemma body_pos_sample_eq:
  "body_pos_sample ax ay az =
     (let x = np_clip ax (- 1) 1; y = np_clip ay (- 1) 1; z = np_clip az (- 1) 1
      in ((if \<bar>y\<bar> > 0.5 then (if y < 0 then LEFT_SIDE else RIGHT_SIDE)
           else if z > x \<and> z > y then PRONE
           else if z < - 0.966 then SUPINE
           else if x > 0.966 then UPRIGHT
           else TILT),
          (if \<bar>y\<bar> > 0.5 then NaN else Finite (arcsin x * 180 / pi)),
          (if x > 0.71 then NaN else Finite (sgn (arcsin (- y)) * arccos (- z) * 180 / pi))))"
  unfolding body_pos_sample_def Let_def
  by (simp add: np_arcsin_clip np_arcsin_neg_clip np_arccos_neg_clip)

lemma length_body_pos_and_angles:
  "body_pos_and_angles acc = (pos, pos_name, thetas, phis) \<Longrightarrow>
     length pos = length acc \<and> length pos_name = length acc \<and>
     length thetas = length acc \<and> length phis = length acc"
  by (auto simp: body_pos_and_angles_def Let_def)

text \<open>
  Claim C7. For every clipped sample \<open>(x, y, z)\<close>: if \<open>|y| > 0.5\<close> the position is
  LEFT_SIDE when \<open>y < 0\<close> and RIGHT_SIDE otherwise, and the tilt angle is not-a-number;
  otherwise the position is PRONE if \<open>z > x\<close> and \<open>z > y\<close>, else SUPINE if
  \<open>z < -0.966\<close>, else UPRIGHT if \<open>x > 0.966\<close>, else TILT, and the tilt angle is
  \<open>asin(x) * 180 / pi\<close>. Independently, the rotation angle is not-a-number when
  \<open>x > 0.71\<close> and \<open>sign(asin(-y)) * acos(-z) * 180 / pi\<close> otherwise.
\<close>

theorem body_pos_sample_decision:
  assumes "- 1 \<le> x" "x \<le> 1" "- 1 \<le> y" "y \<le> 1" "- 1 \<le> z" "z \<le> 1"
  shows "body_pos_sample x y z =
     ((if \<bar>y\<bar> > 0.5 then (if y < 0 then LEFT_SIDE else RIGHT_SIDE)
       else if z > x \<and> z > y then PRONE
       else if z < - 0.966 then SUPINE
       else if x > 0.966 then UPRIGHT
       else TILT),
      (if \<bar>y\<bar> > 0.5 then NaN else Finite (arcsin x * 180 / pi)),
      (if x > 0.71 then NaN else Finite (sgn (arcsin (- y)) * arccos (- z) * 180 / pi)))"
  using assms by (simp only: body_pos_sample_eq Let_def np_clip_id)

theorem body_pos_sample_decision_witness:
  "body_pos_sample 0 0 (- 1) = (SUPINE, Finite 0, Finite 0)"
  using body_pos_sample_decision [of 0 0 "- 1"] by simp

lemma np_clip_idem: "np_clip (np_clip v (- 1) 1) (- 1) 1 = np_clip v (- 1) 1"
  by (simp add: np_clip_def)

lemma body_pos_sample_clipped:
  "body_pos_sample ax ay az =
     body_pos_sample (np_clip ax (- 1) 1) (np_clip ay (- 1) 1) (np_clip az (- 1) 1)"
  by (simp only: body_pos_sample_eq [of ax ay az]
      body_pos_sample_eq [of "np_clip ax (- 1) 1" "np_clip ay (- 1) 1" "np_clip az (- 1) 1"]
      np_clip_idem)

lemma body_pos_and_angles_rows:
  "body_pos_and_angles acc =
     (map (\<lambda>(ax, ay, az). Pos_value (fst (body_pos_sample ax ay az))) acc,
      map (\<lambda>(ax, ay, az). Pos_name (fst (body_pos_sample ax ay az))) acc,
      map (\<lambda>(ax, ay, az). fst (snd (body_pos_sample ax ay az))) acc,
      map (\<lambda>(ax, ay, az). snd (snd (body_pos_sample ax ay az))) acc)"
  by (simp add: body_pos_and_angles_def Let_def case_prod_beta)

lemma Pos_enumeration:
  "p \<in> {SUPINE, PRONE, TILT, UPRIGHT, LEFT_SIDE, RIGHT_SIDE} \<and> Pos_value p < 6"
  by (cases p) simp_all

text \<open>
  Claim C9. For every real sample \<open>(ax, ay, az)\<close>, also outside \<open>[-1, 1]\<close>, the
  classifier works on the clipped axes only: its result is the result on the clipped
  sample, the clipped axes lie in \<open>[-1, 1]\<close>, the arcsine and arccosine calls on them
  are in their domain and return a number, and the result is the decision table applied
  to the clipped axes, with an angle that is not-a-number only where the code writes
  one. Every sample gets one label of the six-element enumeration (index below 6), and
  the classifier returns, for every input row, that row's label, name and angles.
\<close>

theorem body_pos_sample_never_fails:
  "body_pos_sample ax ay az =
     body_pos_sample (np_clip ax (- 1) 1) (np_clip ay (- 1) 1) (np_clip az (- 1) 1) \<and>
   (- 1 \<le> np_clip ax (- 1) 1 \<and> np_clip ax (- 1) 1 \<le> 1) \<and>
   (- 1 \<le> np_clip ay (- 1) 1 \<and> np_clip ay (- 1) 1 \<le> 1) \<and>
   (- 1 \<le> np_clip az (- 1) 1 \<and> np_clip az (- 1) 1 \<le> 1) \<and>
   np_arcsin (np_clip ax (- 1) 1) = Finite (arcsin (np_clip ax (- 1) 1)) \<and>
   np_arcsin (- np_clip ay (- 1) 1) = Finite (arcsin (- np_clip ay (- 1) 1)) \<and>
   np_arccos (- np_clip az (- 1) 1) = Finite (arccos (- np_clip az (- 1) 1)) \<and>
   body_pos_sample ax ay az =
     ((if \<bar>np_clip ay (- 1) 1\<bar> > 0.5
       then (if np_clip ay (- 1) 1 < 0 then LEFT_SIDE else RIGHT_SIDE)
       else if np_clip az (- 1) 1 > np_clip ax (- 1) 1 \<and>
               np_clip az (- 1) 1 > np_clip ay (- 1) 1 then PRONE
       else if np_clip az (- 1) 1 < - 0.966 then SUPINE
       else if np_clip ax (- 1) 1 > 0.966 then UPRIGHT
       else TILT),
      (if \<bar>np_clip ay (- 1) 1\<bar> > 0.5 then NaN
       else Finite (arcsin (np_clip ax (- 1) 1) * 180 / pi)),
      (if np_clip ax (- 1) 1 > 0.71 then NaN
       else Finite (sgn (arcsin (- np_clip ay (- 1) 1)) *
                    arccos (- np_clip az (- 1) 1) * 180 / pi))) \<and>
   fst (body_pos_sample ax ay az) \<in> {SUPINE, PRONE, TILT, UPRIGHT, LEFT_SIDE, RIGHT_SIDE} \<and>
   Pos_value (fst (body_pos_sample ax ay az)) < 6 \<and>
   body_pos_and_angles acc =
     (map (\<lambda>(ax, ay, az). Pos_value (fst (body_pos_sample ax ay az))) acc,
      map (\<lambda>(ax, ay, az). Pos_name (fst (body_pos_sample ax ay az))) acc,
      map (\<lambda>(ax, ay, az). fst (snd (body_pos_sample ax ay az))) acc,
      map (\<lambda>(ax, ay, az). snd (snd (body_pos_sample ax ay az))) acc)"
proof -
  have table: "body_pos_sample ax ay az =
     ((if \<bar>np_clip ay (- 1) 1\<bar> > 0.5
       then (if np_clip ay (- 1) 1 < 0 then LEFT_SIDE else RIGHT_SIDE)
       else if np_clip az (- 1) 1 > np_clip ax (- 1) 1 \<and>
               np_clip az (- 1) 1 > np_clip ay (- 1) 1 then PRONE
       else if np_clip az (- 1) 1 < - 0.966 then SUPINE
       else if np_clip ax (- 1) 1 > 0.966 then UPRIGHT
       else TILT),
      (if \<bar>np_clip ay (- 1) 1\<bar> > 0.5 then NaN
       else Finite (arcsin (np_clip ax (- 1) 1) * 180 / pi)),
      (if np_clip ax (- 1) 1 > 0.71 then NaN
       else Finite (sgn (arcsin (- np_clip ay (- 1) 1)) *
                    arccos (- np_clip az (- 1) 1) * 180 / pi)))"
    by (simp only: body_pos_sample_eq [of ax ay az] Let_def)
  show ?thesis
    by (intro conjI)
      (rule body_pos_sample_clipped np_clip_range [THEN conjunct1] np_clip_range [THEN conjunct2]
        np_arcsin_clip np_arcsin_neg_clip np_arccos_neg_clip table
        Pos_enumeration [THEN conjunct1] Pos_enumeration [THEN conjunct2]
        body_pos_and_angles_rows)+
qed

theorem body_pos_sample_never_fails_witness:
  "body_pos_sample 3 (- 2) 7 = (LEFT_SIDE, NaN, NaN) \<and>
   body_pos_sample 3 (- 2) 7 = body_pos_sample 1 (- 1) 1 \<and>
   body_pos_sample (- 5) 0 (- 3) = (SUPINE, Finite (arcsin (- 1) * 180 / pi), Finite 0) \<and>
   body_pos_and_angles [(3, - 2, 7)] = ([4], [''LEFT_SIDE''], [NaN], [NaN])"
proof -
  have c: "np_clip 3 (- 1) 1 = 1" "np_clip (- 2) (- 1) 1 = - 1" "np_clip 7 (- 1) 1 = 1"
    "np_clip (- 5) (- 1) 1 = - 1" "np_clip 0 (- 1) 1 = 0" "np_clip (- 3) (- 1) 1 = - 1"
    by (simp_all add: np_clip_def)
  note t1 = body_pos_sample_never_fails [of 3 "- 2" 7 "[(3, - 2, 7)]"]
  note t2 = body_pos_sample_never_fails [of "- 5" 0 "- 3" "[]"]
  have a: "body_pos_sample 3 (- 2) 7 = (LEFT_SIDE, NaN, NaN)"
    using t1 [THEN conjunct2] by (simp add: c)
  from t1 have "body_pos_sample 3 (- 2) 7 =
      body_pos_sample (np_clip 3 (- 1) 1) (np_clip (- 2) (- 1) 1) (np_clip 7 (- 1) 1)"
    by (rule conjunct1)
  then have b: "body_pos_sample 3 (- 2) 7 = body_pos_sample 1 (- 1) 1"
    by (simp only: c)
  have d: "body_pos_sample (- 5) 0 (- 3) = (SUPINE, Finite (arcsin (- 1) * 180 / pi), Finite 0)"
    using t2 [THEN conjunct2] by (simp add: c)
  have e: "body_pos_and_angles [(3, - 2, 7)] = ([4], [''LEFT_SIDE''], [NaN], [NaN])"
    using t1 [THEN conjunct2] by (simp add: a)
  show ?thesis using a b d e by simp
qed

text \<open>
  Claim C10. For every sample with \<open>y = 0\<close> and \<open>x \<le> 0.71\<close> the rotation angle is
  exactly 0 whatever \<open>z\<close> is: the factor \<open>sign(asin(-y))\<close> is 0 and multiplies the whole
  \<open>acos(-z)\<close> term. (Values of \<open>x\<close> and \<open>z\<close> outside \<open>[-1, 1]\<close> are clipped first and change
  nothing.)
\<close>

theorem rotation_zero_when_y_zero:
  "ax \<le> 0.71 \<Longrightarrow> snd (snd (body_pos_sample ax 0 az)) = Finite 0"
  by (simp add: body_pos_sample_eq Let_def np_clip_def)

theorem rotation_zero_when_y_zero_witness:
  "(0.5 :: real) \<le> 0.71 \<and> body_pos_sample 0.5 0 (- 0.25) = (TILT, Finite (arcsin 0.5 * 180 / pi), Finite 0)"
  using rotation_zero_when_y_zero [of "0.5" "- 0.25"]
  by (simp add: body_pos_sample_eq np_clip_def)

section \<open>Heart rate: windows, beats and rows\<close>

lemma py_range_zero_step: "py_range start stop 0 = Inl ValueError"
  by (simp add: py_range_def)

lemma py_range_pos:
  assumes "0 < step"
  shows "py_range 0 stop step = Inr (map (\<lambda>k. int k * step) [0..<range_len 0 stop step])"
  using assms by (simp add: py_range_def)

lemma range_len_bound:
  assumes "0 < step" "k < range_len 0 stop step"
  shows "int k * step < stop"
proof -
  from assms have pos: "0 < stop"
    by (auto simp: range_len_def split: if_splits)
  with assms have "int k < (stop - 1) div step + 1"
    by (simp add: range_len_def)
  then have "int k \<le> (stop - 1) div step" by simp
  then have "int k * step \<le> ((stop - 1) div step) * step"
    using assms(1) by (simp add: mult_right_mono)
  also have "\<dots> \<le> stop - 1"
    using pos_mod_sign [OF assms(1), of "stop - 1"]
    by (simp add: minus_mod_eq_div_mult [symmetric])
  finally show ?thesis by simp
qed

lemma py_range_elem:
  assumes "0 < step" "py_range 0 stop step = Inr starts" "k < length starts"
  shows "starts ! k = int k * step \<and> 0 \<le> starts ! k \<and> starts ! k < stop"
proof -
  from assms(1,2) have s: "starts = map (\<lambda>k. int k * step) [0..<range_len 0 stop step]"
    by (simp add: py_range_pos)
  with assms(3) have k: "k < range_len 0 stop step" by simp
  then have v: "starts ! k = int k * step" by (simp add: s)
  with range_len_bound [OF assms(1) k] assms(1) show ?thesis by simp
qed

lemma py_index_in_range:
  "0 \<le> j \<Longrightarrow> j < int (length xs) \<Longrightarrow> py_index xs j = Inr (xs ! nat j)"
  by (simp add: py_index_def Let_def)

lemma py_slice_window:
  assumes "0 \<le> i" "0 \<le> w" "i + w \<le> int (length xs)"
  shows "py_slice xs i (i + w) = take (nat w) (drop (nat i) xs)"
    and "length (py_slice xs i (i + w)) = nat w"
proof -
  have lo: "slice_bound (length xs) i = nat i"
    using assms by (auto simp: slice_bound_def min_def)
  have hi: "slice_bound (length xs) (i + w) = nat (i + w)"
    using assms by (auto simp: slice_bound_def min_def)
  have "nat (i + w) - nat i = nat w" using assms by simp
  then show eq: "py_slice xs i (i + w) = take (nat w) (drop (nat i) xs)"
    by (simp add: py_slice_def Let_def lo hi)
  show "length (py_slice xs i (i + w)) = nat w"
    using assms by (simp add: eq)
qed

lemma np_percentile_nonempty:
  "a \<noteq> [] \<Longrightarrow> \<exists>p. np_percentile a q = Finite p"
  by (simp add: np_percentile_def Let_def)

lemma beat_threshold_nonempty:
  "np_percentile w 99 = Finite p \<Longrightarrow> beat_threshold w = Finite (p * 0.75)"
  by (simp add: beat_threshold_def)

lemma beat_threshold_empty: "beat_threshold [] = NaN"
  by (simp add: beat_threshold_def np_percentile_def)

lemma detect_beats_iff:
  "j \<in> set (detect_beats w) \<longleftrightarrow>
     j + 1 < length w \<and> np_less (Finite (w ! j)) (beat_threshold w) \<and>
     np_less (beat_threshold w) (Finite (w ! (j + 1)))"
  by (auto simp: detect_beats_def Let_def)

lemma detect_beats_increasing: "sorted_wrt (<) (detect_beats w)"
  by (simp add: detect_beats_def Let_def sorted_wrt_filter)

lemma sum_list_np_diff:
  fixes xs :: "int list"
  shows "xs \<noteq> [] \<Longrightarrow> sum_list (np_diff xs) = last xs - hd xs"
  by (induction xs rule: np_diff.induct) simp_all

lemma sum_list_divide:
  "sum_list (map (\<lambda>d. real_of_int d / c) ds) = real_of_int (sum_list ds) / c"
  by (induction ds) (simp_all add: add_divide_distrib)

lemma hr_mean_few: "length beats < 2 \<Longrightarrow> hr_mean beats fs = NaN"
proof -
  assume "length beats < 2"
  then have "np_diff (map int beats) = []"
    by (cases beats rule: np_diff.cases) simp_all
  then show ?thesis by (simp add: hr_mean_def np_mean_def)
qed

lemma increasing_last_gt_hd:
  fixes bs :: "nat list"
  assumes "sorted_wrt (<) bs" "2 \<le> length bs"
  shows "hd bs < last bs"
proof -
  from assms(2) have ne: "bs \<noteq> []" by auto
  have "bs ! 0 < bs ! (length bs - 1)"
    using sorted_wrt_nth_less [OF assms(1), of 0 "length bs - 1"] assms(2) by simp
  then show ?thesis using ne by (simp add: hd_conv_nth last_conv_nth)
qed

lemma hr_mean_many:
  assumes "sorted_wrt (<) beats" "2 \<le> length beats" "0 < fs"
  shows "\<exists>m. 0 < m \<and>
           m = (real (last beats - hd beats) / real_of_int fs) / real (length beats - 1) \<and>
           np_mean (map (\<lambda>d. real_of_int d / real_of_int fs) (np_diff (map int beats))) = Finite m \<and>
           hr_mean beats fs = Finite (60 / m)"
proof -
  let ?d = "np_diff (map int beats)"
  from assms(2) have ne: "beats \<noteq> []" by auto
  have lt: "hd beats < last beats" by (rule increasing_last_gt_hd [OF assms(1,2)])
  have len: "length ?d = length beats - 1" by (simp add: length_np_diff)
  then have dne: "?d \<noteq> []" using assms(2) by (cases "np_diff (map int beats)") simp_all
  have "sum_list ?d = int (last beats) - int (hd beats)"
    using ne by (simp add: sum_list_np_diff last_map hd_map)
  then have sumd: "real_of_int (sum_list ?d) = real (last beats - hd beats)"
    using lt by simp
  have "sum_list (map (\<lambda>d. real_of_int d / real_of_int fs) ?d) =
          real_of_int (sum_list ?d) / real_of_int fs"
    by (rule sum_list_divide)
  then have s: "sum_list (map (\<lambda>d. real_of_int d / real_of_int fs) ?d) =
          real (last beats - hd beats) / real_of_int fs"
    by (simp add: sumd)
  define m where "m = (real (last beats - hd beats) / real_of_int fs) / real (length beats - 1)"
  have pos: "0 < m"
    using lt assms(2,3) by (simp add: m_def)
  have mean: "np_mean (map (\<lambda>d. real_of_int d / real_of_int fs) ?d) = Finite m"
    using dne by (simp add: np_mean_def s len m_def)
  then have "hr_mean beats fs = Finite (60 / m)"
    using pos by (simp add: hr_mean_def)
  with pos mean m_def show ?thesis by blast
qed

lemma hr_new_row_in_range:
  assumes "0 \<le> i" "0 \<le> hr_win" "i + hr_win < int (length ecg_index)"
  shows "hr_new_row ecg_index ecg_processed fs hr_win i =
           Inr (ecg_index ! nat (i + hr_win),
                hr_mean (detect_beats (py_slice ecg_processed i (i + hr_win))) fs)"
  using assms by (simp add: hr_new_row_def Let_def py_index_in_range)

lemma hr_loop_total:
  assumes "\<forall>i \<in> set starts. 0 \<le> i \<and> i + hr_win < int (length ecg_index)" "0 \<le> hr_win"
  shows "\<exists>rows. hr_loop pad ecg_index ecg_processed fs hr_win starts hr = Inr rows"
  using assms
proof (induction starts arbitrary: hr)
  case Nil
  then show ?case by simp
next
  case (Cons i rest)
  then show ?case by (simp add: hr_new_row_in_range)
qed

lemma hr_loop_rows:
  assumes "\<forall>i \<in> set starts. 0 \<le> i \<and> i + hr_win < int (length ecg_index)" "0 \<le> hr_win"
  shows "hr_loop pad ecg_index ecg_processed fs hr_win starts hr =
           Inr (foldl (\<lambda>hr i. pad (hr @ [(ecg_index ! nat (i + hr_win),
                  hr_mean (detect_beats (py_slice ecg_processed i (i + hr_win))) fs)]))
                hr starts)"
  using assms
proof (induction starts arbitrary: hr)
  case Nil
  then show ?case by simp
next
  case (Cons i rest)
  then show ?case by (simp add: hr_new_row_in_range)
qed

lemma hr_starts_in_range:
  assumes "0 < fs * calc_every"
    and "hr_window_starts ecg_processed fs hr_win calc_every = Inr starts"
    and "k < length starts"
  shows "starts ! k = int k * (fs * calc_every)"
    and "0 \<le> starts ! k"
    and "starts ! k + hr_win < int (length ecg_processed)"
  using py_range_elem [OF assms(1) assms(2) [unfolded hr_window_starts_def] assms(3)]
  by simp_all

lemma spike_window_sorted: "sort (0 # 3 # replicate 98 (4::real)) = 0 # 3 # replicate 98 4"
  by (rule sorted_sort_id) simp

lemma spike_window_threshold: "beat_threshold (0 # 3 # replicate 98 4) = Finite 3"
proof -
  have fl: "\<lfloor>99 / 100 * (99::real)\<rfloor> = 98" by simp
  show ?thesis
    unfolding beat_threshold_def np_percentile_def Let_def spike_window_sorted
    by (simp add: fl)
qed

lemma spike_window_beats: "detect_beats (0 # 3 # replicate 98 4) = []"
proof -
  let ?w = "0 # 3 # replicate 98 (4::real)"
  have "\<not> (?w ! j < 3 \<and> 3 < ?w ! (j + 1))" if "j + 1 < length ?w" for j
  proof (cases j)
    case 0
    then show ?thesis by simp
  next
    case (Suc m)
    then have "?w ! j = (3 # replicate 98 4) ! m" by simp
    moreover have "m < length (3 # replicate 98 (4::real))" using that Suc by simp
    ultimately have "?w ! j \<in> set (3 # replicate 98 4)" by (metis nth_mem)
    then show ?thesis by auto
  qed
  then have "j \<notin> set (detect_beats ?w)" for j
    unfolding detect_beats_iff spike_window_threshold by auto
  then show ?thesis by (meson last_in_set)
qed

lemma hr_window_row:
  assumes "0 < calc_every" "0 < hr_win"
    and "length ecg_index = length ecg_processed + 1"
    and "hr_window_starts ecg_processed 100 hr_win calc_every = Inr starts"
    and "k < length starts"
  shows "hr_new_row ecg_index ecg_processed 100 hr_win (starts ! k) =
           Inr (ecg_index ! (nat (starts ! k) + nat hr_win),
                hr_mean (detect_beats (py_slice ecg_processed (starts ! k) (starts ! k + hr_win))) 100)"
    and "py_slice ecg_processed (starts ! k) (starts ! k + hr_win) =
           take (nat hr_win) (drop (nat (starts ! k)) ecg_processed)"
    and "length (py_slice ecg_processed (starts ! k) (starts ! k + hr_win)) = nat hr_win"
    and "nat (starts ! k) + nat hr_win < length ecg_index"
    and "0 \<le> starts ! k \<and> starts ! k + hr_win < int (length ecg_index)"
proof -
  have step: "0 < 100 * calc_every" using assms(1) by simp
  note r = hr_starts_in_range [OF step assms(4) assms(5)]
  have idx: "starts ! k + hr_win < int (length ecg_index)"
    using r(3) assms(3) by simp
  have n: "nat (starts ! k + hr_win) = nat (starts ! k) + nat hr_win"
    using r(2) assms(2) by (simp add: nat_add_distrib)
  show "hr_new_row ecg_index ecg_processed 100 hr_win (starts ! k) =
           Inr (ecg_index ! (nat (starts ! k) + nat hr_win),
                hr_mean (detect_beats (py_slice ecg_processed (starts ! k) (starts ! k + hr_win))) 100)"
    using hr_new_row_in_range [OF r(2) _ idx, of ecg_processed 100] assms(2) n by simp
  show "py_slice ecg_processed (starts ! k) (starts ! k + hr_win) =
           take (nat hr_win) (drop (nat (starts ! k)) ecg_processed)"
    using py_slice_window(1) [OF r(2), of hr_win ecg_processed] assms(2) r(3) by simp
  show "length (py_slice ecg_processed (starts ! k) (starts ! k + hr_win)) = nat hr_win"
    using py_slice_window(2) [OF r(2), of hr_win ecg_processed] assms(2) r(3) by simp
  have "0 \<le> starts ! k + hr_win" using r(2) assms(2) by simp
  then have "nat (starts ! k + hr_win) < length ecg_index"
    using idx by (simp add: nat_less_iff)
  then show "nat (starts ! k) + nat hr_win < length ecg_index"
    by (simp only: n)
  show "0 \<le> starts ! k \<and> starts ! k + hr_win < int (length ecg_index)"
    using r(2) idx by simp
qed

lemma hr_window_starts_single:
  "hr_window_starts (replicate 1501 0) 100 1500 5 = Inr [0]"
  by (simp add: hr_window_starts_def py_range_def range_len_def)

text \<open>
  Claim C1 (as the code has it). In every non-empty window the threshold is 0.75 times
  the 99th percentile of the window, and an index \<open>j\<close> is recorded as a beat exactly when
  \<open>value[j] < threshold < value[j+1]\<close>: both comparisons are strict
  (\<^verbatim>\<open>ecg_sample[j] < thresh < ecg_sample[j+1]\<close>), so a sample that only reaches the
  threshold does not make a beat.
\<close>

theorem detect_beats_strict_crossing:
  assumes "ecg_sample \<noteq> []"
  shows "\<exists>p. np_percentile ecg_sample 99 = Finite p \<and>
          beat_threshold ecg_sample = Finite (p * 0.75) \<and>
          (\<forall>j. j \<in> set (detect_beats ecg_sample) \<longleftrightarrow>
                j + 1 < length ecg_sample \<and> ecg_sample ! j < p * 0.75 \<and>
                p * 0.75 < ecg_sample ! (j + 1))"
proof -
  from np_percentile_nonempty [OF assms] obtain p where p: "np_percentile ecg_sample 99 = Finite p"
    by blast
  have t: "beat_threshold ecg_sample = Finite (p * 0.75)"
    by (rule beat_threshold_nonempty [OF p])
  show ?thesis
    using p t by (simp add: detect_beats_iff)
qed

theorem detect_beats_strict_crossing_witness:
  "[0, 1, 0, 4, 4 :: real] \<noteq> [] \<and> beat_threshold [0, 1, 0, 4, 4] = Finite 3 \<and>
   detect_beats [0, 1, 0, 4, 4] = [2]"
  using detect_beats_strict_crossing [of "[0, 1, 0, 4, 4]"]
  by (simp add: detect_beats_def beat_threshold_def np_percentile_def Let_def upt_rec)

text \<open>
  The claim as stated, with \<open>threshold \<le> value[j+1]\<close>, fails on the 100-sample window
  \<open>0, 3, 4, ..., 4\<close>: its 99th percentile is 4 and its threshold 3, sample 0 is below the
  threshold and sample 1 equals it, yet index 0 is not recorded.
\<close>

theorem detect_beats_nonstrict_counterexample:
  "length (0 # 3 # replicate 98 (4::real)) = 100 \<and>
   beat_threshold (0 # 3 # replicate 98 4) = Finite 3 \<and>
   (0 # 3 # replicate 98 4) ! 0 < (3::real) \<and>
   (3::real) \<le> (0 # 3 # replicate 98 4) ! (0 + 1) \<and>
   0 \<notin> set (detect_beats (0 # 3 # replicate 98 4))"
  by (simp add: spike_window_threshold spike_window_beats)

text \<open>
  Claim C2 (as the code has it). With \<open>hr_win = window_length * 100 > 0\<close>, the window
  starting at \<open>i\<close> is \<open>ecg_processed[i : i+hr_win]\<close>, that is the processed indices
  \<open>i .. i+hr_win-1\<close>, and its row carries the index entry \<open>ecg.index[i+hr_win]\<close>: the
  timestamp one position after the last index of the window (the later of the two
  filtered samples whose difference is the window's last value). The lookup is always in
  range, since the index of the resampled frame is one longer than the processed array.
\<close>

theorem hr_stamp_one_past_window:
  assumes "0 < calc_every" "0 < hr_win"
    and "length ecg_index = length ecg_processed + 1"
    and "hr_window_starts ecg_processed 100 hr_win calc_every = Inr starts"
    and "k < length starts"
  shows "(\<exists>v. hr_new_row ecg_index ecg_processed 100 hr_win (starts ! k) =
               Inr (ecg_index ! (nat (starts ! k) + nat hr_win), v)) \<and>
         py_slice ecg_processed (starts ! k) (starts ! k + hr_win) =
           take (nat hr_win) (drop (nat (starts ! k)) ecg_processed) \<and>
         length (py_slice ecg_processed (starts ! k) (starts ! k + hr_win)) = nat hr_win \<and>
         nat (starts ! k) + nat hr_win < length ecg_index"
  using hr_window_row(1-4) [OF assms] by simp

theorem hr_stamp_one_past_window_witness:
  "(0::int) < 5 \<and> (0::int) < 1500 \<and>
   length (map int [0..<1502]) = length (replicate 1501 (0::real)) + 1 \<and>
   hr_window_starts (replicate 1501 0) 100 1500 5 = Inr [0] \<and>
   (\<exists>v. hr_new_row (map int [0..<1502]) (replicate 1501 0) 100 1500 0 = Inr (1500, v))"
proof -
  have h: "hr_window_starts (replicate 1501 0) 100 1500 5 = Inr [0]"
    by (rule hr_window_starts_single)
  have "(\<exists>v. hr_new_row (map int [0..<1502]) (replicate 1501 0) 100 1500 ([0] ! 0) =
               Inr (map int [0..<1502] ! (nat ([0] ! 0) + nat 1500), v))"
    using hr_stamp_one_past_window [of 5 1500 "map int [0..<1502]" "replicate 1501 0" "[0]" 0] h
    by simp
  then show ?thesis using h by simp
qed

text \<open>
  The claim as stated fails on the default parameters (15 s windows every 5 s): for the
  window of processed indices 0 .. 1499, with sample \<open>k\<close> stamped \<open>k\<close>, the row is stamped
  1500 while the last sample inside the window is stamped 1499.
\<close>

theorem hr_stamp_last_sample_counterexample:
  "hr_window_starts (replicate 1501 0) 100 1500 5 = Inr [0] \<and>
   length (py_slice (replicate 1501 (0::real)) 0 (0 + 1500)) = 1500 \<and>
   map_sum id fst (hr_new_row (map int [0..<1502]) (replicate 1501 0) 100 1500 0) = Inr 1500 \<and>
   py_index (map int [0..<1502]) (0 + 1500 - 1) = Inr 1499"
proof -
  have row: "hr_new_row (map int [0..<1502]) (replicate 1501 0) 100 1500 0 =
      Inr (map int [0..<1502] ! nat (0 + 1500),
           hr_mean (detect_beats (py_slice (replicate 1501 0) 0 (0 + 1500))) 100)"
    by (rule hr_new_row_in_range) simp_all
  have len: "length (py_slice (replicate 1501 (0::real)) 0 (0 + 1500)) = nat 1500"
    by (rule py_slice_window(2)) simp_all
  have last: "py_index (map int [0..<1502]) (0 + 1500 - 1) = Inr 1499"
    by (simp add: py_index_def)
  show ?thesis
    using hr_window_starts_single len last by (simp add: row)
qed

text \<open>
  A recording of two one-second windows: two spikes half a second apart in the first
  window, none in the second.
\<close>

lemma two_window_starts:
  "hr_window_starts (0 # 4 # replicate 49 0 @ 4 # replicate 149 0) 100 100 1 = Inr [0, 100]"
  by (simp add: hr_window_starts_def py_range_def range_len_def upt_rec)

lemma two_window_beats_first:
  "detect_beats (py_slice (0 # 4 # replicate 49 0 @ 4 # replicate 149 0) 0 100) = [0, 50]"
  by code_simp

lemma two_window_beats_second:
  "detect_beats (py_slice (0 # 4 # replicate 49 0 @ 4 # replicate 149 0) 100 200) = []"
  by code_simp

lemmas two_window_beats = two_window_beats_first two_window_beats_second

text \<open>
  Claim C4. The loop of the estimator does not raise: it returns the frame built by
  appending, for every window start \<open>i\<close> in turn, the row of that window (the value
  \<open>hr_mean\<close> of the beats detected in \<open>ecg_processed[i : i+hr_win]\<close>, at the index entry
  \<open>ecg.index[i+hr_win]\<close>) and refilling the frame. For every window, a window with fewer
  than two detected beats has a not-a-number HR (the mean of an empty difference array),
  and a window with two or more beats has HR = 60 divided by the mean inter-beat
  interval in seconds, which is positive.
\<close>

theorem hr_window_missing_or_rate:
  assumes "0 < calc_every" "0 < hr_win"
    and "length ecg_index = length ecg_processed + 1"
    and "hr_window_starts ecg_processed 100 hr_win calc_every = Inr starts"
  shows "hr_loop pad ecg_index ecg_processed 100 hr_win starts [] =
       Inr (foldl (\<lambda>hr i. pad (hr @ [(ecg_index ! nat (i + hr_win),
              hr_mean (detect_beats (py_slice ecg_processed i (i + hr_win))) 100)]))
            [] starts) \<and>
     (\<forall>k < length starts.
        (\<exists>t. hr_new_row ecg_index ecg_processed 100 hr_win (starts ! k) =
               Inr (t, hr_mean (detect_beats
                     (py_slice ecg_processed (starts ! k) (starts ! k + hr_win))) 100)) \<and>
        (length (detect_beats (py_slice ecg_processed (starts ! k) (starts ! k + hr_win))) < 2 \<longrightarrow>
           hr_mean (detect_beats
             (py_slice ecg_processed (starts ! k) (starts ! k + hr_win))) 100 = NaN) \<and>
        (2 \<le> length (detect_beats (py_slice ecg_processed (starts ! k) (starts ! k + hr_win))) \<longrightarrow>
           (\<exists>m. 0 < m \<and>
                np_mean (map (\<lambda>d. real_of_int d / 100)
                  (np_diff (map int (detect_beats
                     (py_slice ecg_processed (starts ! k) (starts ! k + hr_win)))))) = Finite m \<and>
                hr_mean (detect_beats
                  (py_slice ecg_processed (starts ! k) (starts ! k + hr_win))) 100 =
                  Finite (60 / m))))"
proof -
  have inr: "\<forall>i \<in> set starts. 0 \<le> i \<and> i + hr_win < int (length ecg_index)"
  proof
    fix i assume "i \<in> set starts"
    then obtain k where k: "k < length starts" "starts ! k = i"
      by (auto simp: in_set_conv_nth)
    from hr_window_row(5) [OF assms k(1)] k(2)
    show "0 \<le> i \<and> i + hr_win < int (length ecg_index)" by simp
  qed
  have loop: "hr_loop pad ecg_index ecg_processed 100 hr_win starts [] =
       Inr (foldl (\<lambda>hr i. pad (hr @ [(ecg_index ! nat (i + hr_win),
              hr_mean (detect_beats (py_slice ecg_processed i (i + hr_win))) 100)]))
            [] starts)"
    using hr_loop_rows [OF inr] assms(2) by simp
  have rows: "\<exists>t. hr_new_row ecg_index ecg_processed 100 hr_win (starts ! k) =
               Inr (t, hr_mean (detect_beats
                     (py_slice ecg_processed (starts ! k) (starts ! k + hr_win))) 100)"
    if "k < length starts" for k
    using hr_window_row(1) [OF assms that] by blast
  have many: "\<exists>m. 0 < m \<and>
                np_mean (map (\<lambda>d. real_of_int d / 100) (np_diff (map int (detect_beats w)))) =
                  Finite m \<and>
                hr_mean (detect_beats w) 100 = Finite (60 / m)"
    if "2 \<le> length (detect_beats w)" for w
    using hr_mean_many [OF detect_beats_increasing that, of 100] by auto
  show ?thesis
    using loop rows many hr_mean_few by blast
qed

theorem hr_window_missing_or_rate_witness:
  "(0::int) < 1 \<and> (0::int) < 100 \<and>
   length (map int [0..<202]) = length (0 # 4 # replicate 49 0 @ 4 # replicate 149 (0::real)) + 1 \<and>
   hr_window_starts (0 # 4 # replicate 49 0 @ 4 # replicate 149 0) 100 100 1 = Inr [0, 100] \<and>
   detect_beats (py_slice (0 # 4 # replicate 49 0 @ 4 # replicate 149 0) 0 100) = [0, 50] \<and>
   detect_beats (py_slice (0 # 4 # replicate 49 0 @ 4 # replicate 149 0) 100 200) = [] \<and>
   hr_loop (\<lambda>hr. hr) (map int [0..<202])
     (0 # 4 # replicate 49 0 @ 4 # replicate 149 0) 100 100 [0, 100] [] =
     Inr [(100, Finite 120), (200, NaN)]"
proof -
  have p1: "(0::int) < 1" and p2: "(0::int) < 100" by simp_all
  have p3: "length (map int [0..<202]) =
              length (0 # 4 # replicate 49 0 @ 4 # replicate 149 (0::real)) + 1"
    by simp
  note t = hr_window_missing_or_rate [OF p1 p2 p3 two_window_starts, of "\<lambda>hr. hr"]
  have i1: "map int [0..<202] ! 100 = 100" and i2: "map int [0..<202] ! 200 = 200"
    by (simp_all del: upt_Suc)
  have r1: "hr_mean [0, 50] 100 = Finite 120" and r2: "hr_mean [] 100 = NaN"
    by (simp_all add: hr_mean_def np_mean_def)
  from t have "hr_loop (\<lambda>hr. hr) (map int [0..<202])
     (0 # 4 # replicate 49 0 @ 4 # replicate 149 0) 100 100 [0, 100] [] =
     Inr (foldl (\<lambda>hr i. hr @ [(map int [0..<202] ! nat (i + 100),
            hr_mean (detect_beats
              (py_slice (0 # 4 # replicate 49 0 @ 4 # replicate 149 0) i (i + 100))) 100)])
          [] [0, 100])"
    by (rule conjunct1)
  then have loop: "hr_loop (\<lambda>hr. hr) (map int [0..<202])
     (0 # 4 # replicate 49 0 @ 4 # replicate 149 0) 100 100 [0, 100] [] =
     Inr [(100, Finite 120), (200, NaN)]"
    by (simp add: two_window_beats i1 i2 r1 r2 del: upt_Suc)
  show ?thesis
    using p3 two_window_starts two_window_beats loop by simp
qed

text \<open>The example of the specification: beats at 0, 100 and 200 give 60 beats per minute.\<close>

lemma hr_mean_example: "hr_mean [0, 100, 200] 100 = Finite 60"
  by (simp add: hr_mean_def np_mean_def)

lemma hr_mean_no_beat: "hr_mean [] 100 = NaN" and hr_mean_one_beat: "hr_mean [7] 100 = NaN"
  by (simp_all add: hr_mean_def np_mean_def)

section \<open>Respiratory rate: stride and window length\<close>

lemma rr_window_starts_eq:
  assumes "sample_rate ''ECG'' = Some fs_ecg"
    and "sample_rate ''Accelerometer_X'' = Some fs_acc"
  shows "rr_window_starts acc_tot sample_rate window_length calc_every =
           py_range 0 (int (length acc_tot) - window_length * fs_acc) (fs_ecg * calc_every)"
  using assms by (simp add: rr_window_starts_def)

lemma calculate_rr_eq:
  assumes "sample_rate ''ECG'' = Some fs_ecg"
    and "sample_rate ''Accelerometer_X'' = Some fs_acc"
    and "rr_window_starts acc_tot sample_rate window_length calc_every = Inr starts"
  shows "calculate_rr pad acc_index acc_tot sample_rate window_length calc_every =
           rr_loop pad acc_index acc_tot fs_acc (window_length * fs_acc) starts []"
  using assms by (simp add: calculate_rr_def)

lemma rr_sample_window:
  "rr_window (replicate 1200 (0::real)) (25 * 25) 500 = replicate 625 0"
  by (simp add: rr_window_def py_slice_def slice_bound_def)

text \<open>
  Claim C5. With the rates read from the shared sample-rate map, the window starts of
  \<^verbatim>\<open>calculate_rr\<close> are \<open>0, s, 2s, ...\<close> with the stride \<open>s = calc_every * sample_rate['ECG']\<close>,
  while every window is \<open>acc_tot[i : i + rr_win]\<close> with
  \<open>rr_win = window_length * sample_rate['Accelerometer_X']\<close> samples.
\<close>

theorem rr_stride_in_ecg_samples:
  assumes "sample_rate ''ECG'' = Some fs_ecg"
    and "sample_rate ''Accelerometer_X'' = Some fs_acc"
    and "0 < calc_every * fs_ecg"
    and "0 \<le> window_length * fs_acc"
    and "rr_window_starts acc_tot sample_rate window_length calc_every = Inr starts"
  shows "calculate_rr pad acc_index acc_tot sample_rate window_length calc_every =
           rr_loop pad acc_index acc_tot fs_acc (window_length * fs_acc) starts [] \<and>
         (\<forall>k < length starts.
            starts ! k = int k * (calc_every * fs_ecg) \<and>
            (Suc k < length starts \<longrightarrow> starts ! Suc k - starts ! k = calc_every * fs_ecg) \<and>
            rr_window acc_tot (window_length * fs_acc) (starts ! k) =
              take (nat (window_length * fs_acc)) (drop (nat (starts ! k)) acc_tot) \<and>
            length (rr_window acc_tot (window_length * fs_acc) (starts ! k)) =
              nat (window_length * fs_acc))"
proof -
  have step: "0 < fs_ecg * calc_every" using assms(3) by (simp add: mult.commute)
  have rng: "py_range 0 (int (length acc_tot) - window_length * fs_acc) (fs_ecg * calc_every) =
               Inr starts"
    using assms(5) by (simp add: rr_window_starts_eq [OF assms(1,2)])
  have elem: "starts ! k = int k * (calc_every * fs_ecg) \<and> 0 \<le> starts ! k \<and>
                starts ! k + window_length * fs_acc \<le> int (length acc_tot)"
    if "k < length starts" for k
    using py_range_elem [OF step rng that] by (simp add: mult.commute)
  have win: "rr_window acc_tot (window_length * fs_acc) (starts ! k) =
               take (nat (window_length * fs_acc)) (drop (nat (starts ! k)) acc_tot) \<and>
             length (rr_window acc_tot (window_length * fs_acc) (starts ! k)) =
               nat (window_length * fs_acc)"
    if "k < length starts" for k
    using py_slice_window [of "starts ! k" "window_length * fs_acc" acc_tot] elem [OF that] assms(4)
    by (simp add: rr_window_def)
  have diff: "starts ! Suc k - starts ! k = calc_every * fs_ecg"
    if "Suc k < length starts" for k
  proof -
    from that have "k < length starts" by simp
    from elem [OF this] elem [OF that] show ?thesis by (simp add: algebra_simps)
  qed
  show ?thesis
    using calculate_rr_eq [OF assms(1,2,5)] elem win diff by blast
qed

theorem rr_stride_in_ecg_samples_witness:
  "[''ECG'' \<mapsto> 100, ''Accelerometer_X'' \<mapsto> (25::int)] ''ECG'' = Some 100 \<and>
   [''ECG'' \<mapsto> 100, ''Accelerometer_X'' \<mapsto> (25::int)] ''Accelerometer_X'' = Some 25 \<and>
   (0::int) < 5 * 100 \<and> (0::int) \<le> 25 * 25 \<and>
   rr_window_starts (replicate 1200 0) [''ECG'' \<mapsto> 100, ''Accelerometer_X'' \<mapsto> 25] 25 5 =
     Inr [0, 500] \<and>
   [0, 500 :: int] ! 1 - [0, 500] ! 0 = 5 * 100 \<and>
   length (rr_window (replicate 1200 (0::real)) (25 * 25) ([0, 500] ! 1)) = nat (25 * 25)"
proof -
  have s: "rr_window_starts (replicate 1200 0) [''ECG'' \<mapsto> 100, ''Accelerometer_X'' \<mapsto> 25] 25 5 =
        Inr [0, 500]"
    by (simp add: rr_window_starts_def py_range_def range_len_def upt_rec)
  have "length (rr_window (replicate 1200 (0::real)) (25 * 25) ([0, 500] ! 1)) = nat (25 * 25)"
    using rr_stride_in_ecg_samples
      [of "[''ECG'' \<mapsto> 100, ''Accelerometer_X'' \<mapsto> 25]" 100 25 5 25 "replicate 1200 0" "[0, 500]"
        "\<lambda>rr. rr" "[] :: int list"] s
    by auto
  then show ?thesis using s by simp
qed

section \<open>Spectrum: the peak\<close>

lemma argmax_loop_spec:
  assumes "k < length ys" "m = ys ! k" "i = length ys"
    and "\<forall>j < length ys. ys ! j \<le> m" "\<forall>j < k. ys ! j < m"
  shows "argmax_loop xs i k m < length (ys @ xs) \<and>
         (\<forall>j < length (ys @ xs). (ys @ xs) ! j \<le> (ys @ xs) ! argmax_loop xs i k m) \<and>
         (\<forall>j < argmax_loop xs i k m. (ys @ xs) ! j < (ys @ xs) ! argmax_loop xs i k m)"
  using assms
proof (induction xs arbitrary: ys i k m)
  case Nil
  then show ?case by simp
next
  case (Cons x xs)
  show ?case
  proof (cases "m < x")
    case True
    have a: "length ys < length (ys @ [x])" by simp
    have b: "x = (ys @ [x]) ! length ys" by simp
    have c: "i + 1 = length (ys @ [x])" using Cons.prems(3) by simp
    have d: "\<forall>j < length (ys @ [x]). (ys @ [x]) ! j \<le> x"
      using Cons.prems(4) True by (auto simp: nth_append less_Suc_eq)
    have e: "\<forall>j < length ys. (ys @ [x]) ! j < x"
      using Cons.prems(4) True by (auto simp: nth_append)
    from Cons.IH [OF a b c d e] True Cons.prems(3) show ?thesis by simp
  next
    case False
    have a: "k < length (ys @ [x])" using Cons.prems(1) by simp
    have b: "m = (ys @ [x]) ! k" using Cons.prems(1,2) by (simp add: nth_append)
    have c: "i + 1 = length (ys @ [x])" using Cons.prems(3) by simp
    have d: "\<forall>j < length (ys @ [x]). (ys @ [x]) ! j \<le> m"
      using Cons.prems(4) False by (auto simp: nth_append less_Suc_eq)
    have e: "\<forall>j < k. (ys @ [x]) ! j < m"
      using Cons.prems(1,5) by (auto simp: nth_append)
    from Cons.IH [OF a b c d e] False show ?thesis by simp
  qed
qed

lemma np_argmax_spec:
  assumes "xs \<noteq> []"
  shows "\<exists>k. np_argmax xs = Inr k \<and> k < length xs \<and>
           (\<forall>j < length xs. xs ! j \<le> xs ! k) \<and> (\<forall>j < k. xs ! j < xs ! k)"
proof -
  from assms obtain x r where xs: "xs = x # r" by (cases xs) auto
  have "argmax_loop r 1 0 x < length ([x] @ r) \<and>
         (\<forall>j < length ([x] @ r). ([x] @ r) ! j \<le> ([x] @ r) ! argmax_loop r 1 0 x) \<and>
         (\<forall>j < argmax_loop r 1 0 x. ([x] @ r) ! j < ([x] @ r) ! argmax_loop r 1 0 x)"
    by (rule argmax_loop_spec) simp_all
  then show ?thesis by (simp add: xs np_argmax_def)
qed

lemma np_max_spec:
  assumes "xs \<noteq> []"
  shows "np_max xs = Inr (Max (set xs))"
proof -
  from assms obtain x r where xs: "xs = x # r" by (cases xs) auto
  show ?thesis using Max.set_eq_fold [of x r] by (simp add: xs np_max_def)
qed

lemma rfftfreq_resolution:
  assumes "2 \<le> n" "sample_rate \<noteq> 0"
  shows "py_index (rfftfreq n (1.0 / sample_rate)) 1 = Inr (sample_rate / real n)"
proof -
  have l: "1 < n div 2 + 1" using assms(1) by simp
  then show ?thesis
    using assms by (simp add: rfftfreq_def py_index_def Let_def del: upt_Suc)
qed

lemma dft_bin_pair:
  "dft_bin [2, 1] 0 = 3" "dft_bin [2, 1] (Suc 0) = 1"
  unfolding dft_bin_def by (simp_all add: lessThan_Suc eval_nat_numeral complex_eq_iff)

lemma rfft_pair: "rfft [2, 1] = Inr [3, 1]"
  by (simp add: rfft_def upt_rec dft_bin_pair)

lemma spectrum_pair: "spectrum [2, 1] 2 = Inr ([3 / 1000, 1 / 1000], [0, 1], 0, 3 / 1000)"
  by (simp add: spectrum_def rfft_pair rfftfreq_def np_argmax_def np_max_def py_index_def upt_rec)

lemma spectrum_single: "spectrum [5] 100 = Inl IndexError"
  by (simp add: spectrum_def rfft_def rfftfreq_def np_argmax_def np_max_def py_index_def dft_bin_def)

text \<open>
  Claim C3 (as the code has it). For a series of at least two samples and a non-zero
  sample rate, \<^verbatim>\<open>spectrum\<close> returns the magnitudes of all one-sided FFT bins divided by
  1000, and the peak frequency is \<open>k\<close> times the frequency resolution
  \<open>sample_rate / len(sig)\<close>, where \<open>k\<close> is the first index of the largest magnitude among
  all bins, the bin 0 included: nothing is left out of the maximization.
\<close>

theorem spectrum_peak_over_all_bins:
  assumes "2 \<le> length sig" "sample_rate \<noteq> 0"
  shows "\<exists>k. spectrum sig sample_rate =
           Inr (map (\<lambda>c. cmod c / 1000) (map (dft_bin sig) [0..<length sig div 2 + 1]),
                rfftfreq (length sig) (1 / sample_rate),
                real k * (sample_rate / real (length sig)),
                Max (set (map cmod (map (dft_bin sig) [0..<length sig div 2 + 1]))) / 1000) \<and>
         k < length sig div 2 + 1 \<and>
         (\<forall>j < length sig div 2 + 1. cmod (dft_bin sig j) \<le> cmod (dft_bin sig k)) \<and>
         (\<forall>j < k. cmod (dft_bin sig j) < cmod (dft_bin sig k))"
proof -
  let ?bins = "map (dft_bin sig) [0..<length sig div 2 + 1]"
  let ?amp = "map cmod ?bins"
  from assms(1) have ne: "sig \<noteq> []" by auto
  have r: "rfft sig = Inr ?bins" using ne by (simp add: rfft_def)
  have ane: "?amp \<noteq> []" by simp
  from np_argmax_spec [OF ane] obtain k where k: "np_argmax ?amp = Inr k" "k < length ?amp"
    "\<forall>j < length ?amp. ?amp ! j \<le> ?amp ! k" "\<forall>j < k. ?amp ! j < ?amp ! k"
    by blast
  have kl: "k < length sig div 2 + 1" using k(2) by simp
  have mx: "\<forall>j < length sig div 2 + 1. cmod (dft_bin sig j) \<le> cmod (dft_bin sig k)"
  proof (intro allI impI)
    fix j assume j: "j < length sig div 2 + 1"
    then have "?amp ! j \<le> ?amp ! k" using k(3) by simp
    then show "cmod (dft_bin sig j) \<le> cmod (dft_bin sig k)"
      using j kl by (simp del: upt_Suc)
  qed
  have fst: "\<forall>j < k. cmod (dft_bin sig j) < cmod (dft_bin sig k)"
  proof (intro allI impI)
    fix j assume j: "j < k"
    then have "?amp ! j < ?amp ! k" using k(4) by simp
    then show "cmod (dft_bin sig j) < cmod (dft_bin sig k)"
      using j kl by (simp del: upt_Suc)
  qed
  have sp: "spectrum sig sample_rate =
           Inr (map (\<lambda>c. cmod c / 1000) ?bins,
                rfftfreq (length sig) (1 / sample_rate),
                real k * (sample_rate / real (length sig)),
                Max (set ?amp) / 1000)"
    using assms(2) rfftfreq_resolution [OF assms] k(1) np_max_spec [OF ane]
    by (simp add: spectrum_def r Let_def o_def del: upt_Suc)
  show ?thesis using sp kl mx fst by blast
qed

theorem spectrum_peak_over_all_bins_witness:
  "2 \<le> length [2, 1 :: real] \<and> (2::real) \<noteq> 0 \<and>
   spectrum [2, 1] 2 = Inr ([3 / 1000, 1 / 1000], [0, 1], 0, 3 / 1000)"
  using spectrum_peak_over_all_bins [of "[2, 1]" 2] spectrum_pair
  by simp

text \<open>
  The claim as stated fails on the two-sample series \<open>2, 1\<close> at a sample rate of 2: the
  magnitudes are 3 (bin 0) and 1 (bin 1) and the resolution is 1, so with bin 0 left out
  the peak would be bin 1 at frequency 1, but the reported peak frequency is 0. It also
  fails on the non-empty series of one sample, where \<^verbatim>\<open>freq[1]\<close> does not exist.
\<close>

theorem spectrum_dc_counterexample:
  "spectrum [2, 1] 2 = Inr ([3 / 1000, 1 / 1000], [0, 1], 0, 3 / 1000) \<and>
   spectrum [5] 100 = Inl IndexError"
  by (simp add: spectrum_pair spectrum_single)

section \<open>Band-pass filter: design and application\<close>










end
